theory Spec2Isabelle
  imports Complex_Main "HOL-Library.AList"
begin

section \<open>EOS Energy Optimizer: price normalisation, request building, control and savings\<close>

text \<open>
  The development embeds the arithmetic and data-shaping core of the integration:
  \<^item> \<^verbatim>\<open>api.py\<close>: \<^verbatim>\<open>_expand_hourly_to_15min\<close>, \<^verbatim>\<open>_parse_tibber_prices_dual\<close>,
    \<^verbatim>\<open>_parse_entsoe_prices_dual\<close>, \<^verbatim>\<open>_build_optimization_request\<close>,
    \<^verbatim>\<open>_update_control_state\<close>, \<^verbatim>\<open>async_run_optimization\<close>,
    \<^verbatim>\<open>async_set_evcc_battery_mode\<close>;
  \<^item> \<^verbatim>\<open>coordinator.py\<close>: \<^verbatim>\<open>_update_savings\<close>, \<^verbatim>\<open>_set_evcc_mode_if_changed\<close>.

  Conventions. Python numbers (\<^verbatim>\<open>int\<close> and \<^verbatim>\<open>float\<close> mixed freely by the source) are
  modelled as \<^typ>\<open>real\<close>: the development is about which formula and which branch the
  code takes, not about binary rounding. Python lists are HOL lists, a \<^verbatim>\<open>dict\<close> is an
  association list in insertion order, \<^verbatim>\<open>None\<close> is \<^term>\<open>None\<close> or a constructor of
  its own, a raised exception is a value. Leading underscores of Python names are dropped.
\<close>

subsection \<open>Expanding hourly prices to quarter-hour slots\<close>

text \<open>
  \<^verbatim>\<open>while len(prices_15min) < 192: prices_15min.append(0.30)\<close>
\<close>

function pad_15min :: "real list \<Rightarrow> real list" where
  "pad_15min prices_15min =
     (if length prices_15min < 192 then pad_15min (prices_15min @ [0.30]) else prices_15min)"
  by pat_completeness auto
termination
  by (relation "measure (\<lambda>xs. 192 - length xs)") auto

declare pad_15min.simps [simp del]

text \<open>
  \<^verbatim>\<open>for price in hourly_prices[:48]: prices_15min.extend([price] * 4)\<close>, then the padding
  loop, then \<^verbatim>\<open>return prices_15min[:192]\<close>.
\<close>

definition expand_hourly_to_15min :: "real list \<Rightarrow> real list" where
  "expand_hourly_to_15min hourly_prices =
     take 192 (pad_15min (fold (\<lambda>price acc. acc @ replicate 4 price) (take 48 hourly_prices) []))"

subsection \<open>Constants of \<^verbatim>\<open>const.py\<close> and the configuration\<close>

datatype InverterMode = AUTO | STARTUP | CHARGE_FROM_GRID | AVOID_DISCHARGE | DISCHARGE_ALLOWED

definition CONF_BATTERY_CAPACITY :: string where "CONF_BATTERY_CAPACITY = ''battery_capacity_wh''"
definition CONF_BATTERY_CHARGE_EFFICIENCY :: string where
  "CONF_BATTERY_CHARGE_EFFICIENCY = ''battery_charge_efficiency''"
definition CONF_BATTERY_DISCHARGE_EFFICIENCY :: string where
  "CONF_BATTERY_DISCHARGE_EFFICIENCY = ''battery_discharge_efficiency''"
definition CONF_BATTERY_MAX_CHARGE_POWER :: string where
  "CONF_BATTERY_MAX_CHARGE_POWER = ''battery_max_charge_power_w''"
definition CONF_BATTERY_MIN_SOC :: string where "CONF_BATTERY_MIN_SOC = ''battery_min_soc''"
definition CONF_BATTERY_MAX_SOC :: string where "CONF_BATTERY_MAX_SOC = ''battery_max_soc''"
definition CONF_FEED_IN_PRICE :: string where "CONF_FEED_IN_PRICE = ''feed_in_price''"
definition CONF_MAX_GRID_CHARGE_RATE :: string where
  "CONF_MAX_GRID_CHARGE_RATE = ''max_grid_charge_rate''"
definition CONF_MAX_PV_CHARGE_RATE :: string where
  "CONF_MAX_PV_CHARGE_RATE = ''max_pv_charge_rate''"

definition DEFAULT_BATTERY_CAPACITY :: real where "DEFAULT_BATTERY_CAPACITY = 10000"
definition DEFAULT_BATTERY_EFFICIENCY :: real where "DEFAULT_BATTERY_EFFICIENCY = 0.93"
definition DEFAULT_BATTERY_MAX_CHARGE :: real where "DEFAULT_BATTERY_MAX_CHARGE = 5000"
definition DEFAULT_BATTERY_MIN_SOC :: real where "DEFAULT_BATTERY_MIN_SOC = 5"
definition DEFAULT_BATTERY_MAX_SOC :: real where "DEFAULT_BATTERY_MAX_SOC = 95"
definition DEFAULT_FEED_IN_PRICE :: real where "DEFAULT_FEED_IN_PRICE = 0.08"


definition EOS_TGT_DURATION :: nat where "EOS_TGT_DURATION = 48"

text \<open>
  The numeric settings of \<^verbatim>\<open>self.config\<close>; \<^verbatim>\<open>config.get(key, default)\<close>.
\<close>

type_synonym config = "string \<rightharpoonup> real"

definition config_get :: "config \<Rightarrow> string \<Rightarrow> real \<Rightarrow> real" where
  "config_get cfg key dflt = (case cfg key of Some v \<Rightarrow> v | None \<Rightarrow> dflt)"

subsection \<open>The dataclasses of \<^verbatim>\<open>api.py\<close>\<close>

text \<open>
  Fields that none of the embedded functions reads or writes (time stamps, the raw
  response, the EVCC load points) are left out.
\<close>

record OptimizationResult =
  ac_charge :: "real list"
  dc_charge :: "real list"
  opt_discharge_allowed :: "bool list"
  soc_forecast :: "real list"
  cost_total :: real
  losses_total :: real
  grid_import :: "real list"
  grid_export :: "real list"
  load_forecast :: "real list"
  opt_home_appliance_start_hour :: "int option"

record ControlState =
  mode :: InverterMode
  ac_charge_demand :: real
  dc_charge_demand :: real
  discharge_allowed :: bool
  override_active :: bool
  override_end_time :: "real option"
  override_power :: real

record BatteryState =
  soc :: real
  usable_energy_wh :: real
  dynamic_max_charge_power :: real
  capacity_wh :: real
  min_soc :: real
  max_soc :: real

record SavingsTracker =
  total_savings_eur :: real
  total_grid_cost_eur :: real
  total_feed_in_revenue_eur :: real
  total_charged_kwh :: real
  total_discharged_kwh :: real
  total_grid_import_kwh :: real
  total_grid_export_kwh :: real
  total_pv_charged_kwh :: real
  total_grid_charged_kwh :: real
  session_savings_eur :: real
  session_charged_kwh :: real
  session_discharged_kwh :: real
  session_pv_charged_kwh :: real
  session_grid_charged_kwh :: real
  avg_charge_price :: real
  avg_discharge_price :: real
  today_savings_eur :: real
  today_grid_cost_eur :: real
  today_pv_charged_kwh :: real
  today_grid_charged_kwh :: real
  today_date :: string

record EVCCState =
  evcc_enabled :: bool
  evcc_connected :: bool
  evcc_version :: string
  charging_state :: bool
  charging_mode :: string
  battery_mode :: string

record EOSData =
  control :: ControlState
  battery :: BatteryState
  evcc :: EVCCState
  optimization :: OptimizationResult
  savings :: SavingsTracker
  pv_forecast :: "real list"
  prices :: "real list"
  prices_15min :: "real list"
  load_profile :: "real list"
  optimization_state :: string
  last_start_solution :: "real list option"
  home_appliance_released :: bool
  home_appliance_start_hour :: "int option"

text \<open>The field defaults of the dataclasses: the state of a freshly constructed client.\<close>

definition OptimizationResult_init :: OptimizationResult where
  "OptimizationResult_init =
     \<lparr> ac_charge = [], dc_charge = [], opt_discharge_allowed = [], soc_forecast = [],
       cost_total = 0, losses_total = 0, grid_import = [], grid_export = [],
       load_forecast = [], opt_home_appliance_start_hour = None \<rparr>"

definition ControlState_init :: ControlState where
  "ControlState_init =
     \<lparr> mode = AUTO, ac_charge_demand = 0, dc_charge_demand = 0, discharge_allowed = True,
       override_active = False, override_end_time = None, override_power = 0 \<rparr>"

definition BatteryState_init :: BatteryState where
  "BatteryState_init =
     \<lparr> soc = 0, usable_energy_wh = 0, dynamic_max_charge_power = 0, capacity_wh = 0,
       min_soc = 0, max_soc = 100 \<rparr>"

definition SavingsTracker_init :: SavingsTracker where
  "SavingsTracker_init =
     \<lparr> total_savings_eur = 0, total_grid_cost_eur = 0, total_feed_in_revenue_eur = 0,
       total_charged_kwh = 0, total_discharged_kwh = 0, total_grid_import_kwh = 0,
       total_grid_export_kwh = 0, total_pv_charged_kwh = 0, total_grid_charged_kwh = 0,
       session_savings_eur = 0, session_charged_kwh = 0, session_discharged_kwh = 0,
       session_pv_charged_kwh = 0, session_grid_charged_kwh = 0, avg_charge_price = 0,
       avg_discharge_price = 0, today_savings_eur = 0, today_grid_cost_eur = 0,
       today_pv_charged_kwh = 0, today_grid_charged_kwh = 0, today_date = [] \<rparr>"

definition EVCCState_init :: EVCCState where
  "EVCCState_init =
     \<lparr> evcc_enabled = False, evcc_connected = False, evcc_version = [],
       charging_state = False, charging_mode = ''off'', battery_mode = ''normal'' \<rparr>"

definition EOSData_init :: EOSData where
  "EOSData_init =
     \<lparr> control = ControlState_init, battery = BatteryState_init, evcc = EVCCState_init,
       optimization = OptimizationResult_init, savings = SavingsTracker_init,
       pv_forecast = [], prices = [], prices_15min = [], load_profile = [],
       optimization_state = ''unknown'', last_start_solution = None,
       home_appliance_released = False, home_appliance_start_hour = None \<rparr>"

subsection \<open>Building the optimization request\<close>

text \<open>
  \<^verbatim>\<open>while len(pv_forecast) < EOS_TGT_DURATION: pv_forecast.append(0)\<close>
\<close>

function pad_zero :: "real list \<Rightarrow> real list" where
  "pad_zero xs = (if length xs < EOS_TGT_DURATION then pad_zero (xs @ [0]) else xs)"
  by pat_completeness auto
termination
  by (relation "measure (\<lambda>xs. EOS_TGT_DURATION - length xs)") auto

declare pad_zero.simps [simp del]

text \<open>
  \<^verbatim>\<open>while len(prices) < EOS_TGT_DURATION: prices.append(prices[-1] if prices else 0.30)\<close>,
  and the same loop on \<^verbatim>\<open>load_profile\<close> with 400.
\<close>

function pad_last :: "real \<Rightarrow> real list \<Rightarrow> real list" where
  "pad_last dflt xs =
     (if length xs < EOS_TGT_DURATION
      then pad_last dflt (xs @ [if xs \<noteq> [] then last xs else dflt]) else xs)"
  by pat_completeness auto
termination
  by (relation "measure (\<lambda>(dflt, xs). EOS_TGT_DURATION - length xs)") auto

declare pad_last.simps [simp del]

text \<open>Python's \<^verbatim>\<open>round(x)\<close> on a float: to the nearest integer, ties to the even one.\<close>

definition py_round :: "real \<Rightarrow> int" where
  "py_round x =
     (let f = \<lfloor>x\<rfloor>; d = x - of_int f
      in if d < 1 / 2 then f else if 1 / 2 < d then f + 1 else if even f then f else f + 1)"

record ems =
  pv_prognose_wh :: "real list"
  strompreis_euro_pro_wh :: "real list"
  einspeiseverguetung_euro_pro_wh :: "real list"
  gesamtlast :: "real list"

record pv_akku =
  akku_device_id :: "string option"
  akku_capacity_wh :: real
  charging_efficiency :: real
  discharging_efficiency :: real
  max_charge_power_w :: real
  initial_soc_percentage :: int
  min_soc_percentage :: real
  max_soc_percentage :: real

record inverter =
  inverter_device_id :: "string option"
  max_power_wh :: real
  battery_id :: "string option"

record request =
  req_ems :: ems
  req_pv_akku :: pv_akku
  req_inverter :: inverter
  start_solution :: "real list option"

text \<open>
  \<^verbatim>\<open>_build_optimization_request\<close>. The comparison of version strings
  (\<^verbatim>\<open>is_eos_version_at_least("0.0.2")\<close>, from the \<^verbatim>\<open>packaging\<close> library) is the
  parameter \<open>at_least_0_0_2\<close>. A slice \<^verbatim>\<open>xs[:48]\<close> is \<^term>\<open>take 48 xs\<close>; a list is
  truthy when it is not empty.
\<close>

definition build_optimization_request :: "bool \<Rightarrow> config \<Rightarrow> EOSData \<Rightarrow> request" where
  "build_optimization_request at_least_0_0_2 cfg d =
     (let capacity = config_get cfg CONF_BATTERY_CAPACITY DEFAULT_BATTERY_CAPACITY;
          charge_eff = config_get cfg CONF_BATTERY_CHARGE_EFFICIENCY DEFAULT_BATTERY_EFFICIENCY;
          discharge_eff =
            config_get cfg CONF_BATTERY_DISCHARGE_EFFICIENCY DEFAULT_BATTERY_EFFICIENCY;
          max_charge = config_get cfg CONF_BATTERY_MAX_CHARGE_POWER DEFAULT_BATTERY_MAX_CHARGE;
          min_soc' = config_get cfg CONF_BATTERY_MIN_SOC DEFAULT_BATTERY_MIN_SOC;
          max_soc' = config_get cfg CONF_BATTERY_MAX_SOC DEFAULT_BATTERY_MAX_SOC;
          feed_in = config_get cfg CONF_FEED_IN_PRICE DEFAULT_FEED_IN_PRICE;
          max_pv_charge = config_get cfg CONF_MAX_PV_CHARGE_RATE max_charge;
          pv_forecast0 =
            (if pv_forecast d \<noteq> [] then take EOS_TGT_DURATION (pv_forecast d)
             else replicate EOS_TGT_DURATION 0);
          prices0 =
            (if prices d \<noteq> [] then take EOS_TGT_DURATION (prices d)
             else replicate EOS_TGT_DURATION 0.30);
          load_profile0 =
            (if load_profile d \<noteq> [] then take EOS_TGT_DURATION (load_profile d)
             else replicate EOS_TGT_DURATION 400);
          pv_forecast1 = pad_zero pv_forecast0;
          prices1 = pad_last 0.30 prices0;
          load_profile1 = pad_last 400 load_profile0
      in \<lparr> req_ems =
             \<lparr> pv_prognose_wh = pv_forecast1,
               strompreis_euro_pro_wh = map (\<lambda>p. p / 1000) prices1,
               einspeiseverguetung_euro_pro_wh = replicate EOS_TGT_DURATION (feed_in / 1000),
               gesamtlast = load_profile1 \<rparr>,
           req_pv_akku =
             \<lparr> akku_device_id = (if at_least_0_0_2 then Some ''battery1'' else None),
               akku_capacity_wh = capacity,
               charging_efficiency = charge_eff,
               discharging_efficiency = discharge_eff,
               max_charge_power_w = max_charge,
               initial_soc_percentage = py_round (soc (battery d)),
               min_soc_percentage = min_soc',
               max_soc_percentage = max_soc' \<rparr>,
           req_inverter =
             \<lparr> inverter_device_id = (if at_least_0_0_2 then Some ''inverter1'' else None),
               max_power_wh = max_pv_charge,
               battery_id = (if at_least_0_0_2 then Some ''battery1'' else None) \<rparr>,
           start_solution =
             (case last_start_solution d of
                Some (x # xs) \<Rightarrow> Some (x # xs)
              | _ \<Rightarrow> None) \<rparr>)"

subsection \<open>Deriving the control state\<close>

text \<open>
  \<^verbatim>\<open>_update_control_state\<close>: the early return when a schedule is empty, then the three
  guarded assignments in the source's order, then the mode unless an override is active.
\<close>

definition update_control_state :: "config \<Rightarrow> EOSData \<Rightarrow> EOSData" where
  "update_control_state cfg d =
     (let opt = optimization d
      in if ac_charge opt = [] \<or> dc_charge opt = [] \<or> opt_discharge_allowed opt = [] then d
         else
           let max_grid_charge = config_get cfg CONF_MAX_GRID_CHARGE_RATE DEFAULT_BATTERY_MAX_CHARGE;
               max_pv_charge = config_get cfg CONF_MAX_PV_CHARGE_RATE DEFAULT_BATTERY_MAX_CHARGE;
               c0 = control d;
               c1 = (if ac_charge opt \<noteq> []
                     then c0\<lparr>ac_charge_demand := ac_charge opt ! 0 * max_grid_charge\<rparr> else c0);
               c2 = (if dc_charge opt \<noteq> []
                     then c1\<lparr>dc_charge_demand := dc_charge opt ! 0 * max_pv_charge\<rparr> else c1);
               c3 = (if opt_discharge_allowed opt \<noteq> []
                     then c2\<lparr>discharge_allowed := opt_discharge_allowed opt ! 0\<rparr> else c2);
               c4 = (if \<not> override_active c3
                     then (if ac_charge_demand c3 > 0 then c3\<lparr>mode := CHARGE_FROM_GRID\<rparr>
                           else if \<not> discharge_allowed c3 then c3\<lparr>mode := AVOID_DISCHARGE\<rparr>
                           else c3\<lparr>mode := DISCHARGE_ALLOWED\<rparr>)
                     else c3)
           in d\<lparr>control := c4\<rparr>)"

subsection \<open>The coordinator: EVCC battery mode\<close>



text \<open>The attributes of \<^verbatim>\<open>EOSDataUpdateCoordinator\<close> that the embedded methods use.\<close>

record Coordinator =
  last_evcc_mode :: "string option"
  last_soc :: "real option"
  battery_capacity_wh :: real
  feed_in_price :: real





subsection \<open>The coordinator: savings\<close>

text \<open>
  \<^verbatim>\<open>_update_savings\<close>, with the current date string \<open>today\<close> as a parameter. The
  dataclass instances \<^verbatim>\<open>data.battery\<close> and \<^verbatim>\<open>data.control\<close> are always truthy, so the
  first test is on \<^verbatim>\<open>data.prices\<close> alone and \<^verbatim>\<open>eos_mode\<close> is the control mode.
\<close>

definition update_savings :: "string \<Rightarrow> Coordinator \<times> EOSData \<Rightarrow> Coordinator \<times> EOSData" where
  "update_savings today cd =
     (let (co, d) = cd
      in if prices d = [] then (co, d)
         else
           let current_soc = soc (battery d);
               current_price = (if prices d \<noteq> [] then prices d ! 0 else 0.30);
               eos_mode = mode (control d);
               s0 = savings d;
               s1 = (if today_date s0 \<noteq> today
                     then s0\<lparr>today_date := today, today_savings_eur := 0,
                             today_grid_cost_eur := 0, today_pv_charged_kwh := 0,
                             today_grid_charged_kwh := 0\<rparr>
                     else s0)
           in case last_soc co of
                None \<Rightarrow> (co\<lparr>last_soc := Some current_soc\<rparr>, d\<lparr>savings := s1\<rparr>)
              | Some last_soc' \<Rightarrow>
                  let soc_change = current_soc - last_soc';
                      energy_wh = (soc_change / 100) * battery_capacity_wh co;
                      energy_kwh = energy_wh / 1000
                  in if \<bar>energy_kwh\<bar> < 0.01
                     then (co\<lparr>last_soc := Some current_soc\<rparr>, d\<lparr>savings := s1\<rparr>)
                     else if energy_kwh > 0 then
                       let charge_price =
                             (if eos_mode = CHARGE_FROM_GRID then current_price
                              else feed_in_price co);
                           s2 = (if eos_mode = CHARGE_FROM_GRID
                                 then s1\<lparr>total_grid_import_kwh :=
                                            total_grid_import_kwh s1 + energy_kwh,
                                         total_grid_cost_eur :=
                                            total_grid_cost_eur s1 + energy_kwh * current_price,
                                         today_grid_cost_eur :=
                                            today_grid_cost_eur s1 + energy_kwh * current_price,
                                         total_grid_charged_kwh :=
                                            total_grid_charged_kwh s1 + energy_kwh,
                                         session_grid_charged_kwh :=
                                            session_grid_charged_kwh s1 + energy_kwh,
                                         today_grid_charged_kwh :=
                                            today_grid_charged_kwh s1 + energy_kwh\<rparr>
                                 else s1\<lparr>total_pv_charged_kwh :=
                                            total_pv_charged_kwh s1 + energy_kwh,
                                         session_pv_charged_kwh :=
                                            session_pv_charged_kwh s1 + energy_kwh,
                                         today_pv_charged_kwh :=
                                            today_pv_charged_kwh s1 + energy_kwh\<rparr>);
                           s3 = s2\<lparr>total_charged_kwh := total_charged_kwh s2 + energy_kwh,
                                   session_charged_kwh := session_charged_kwh s2 + energy_kwh\<rparr>;
                           old_total = total_charged_kwh s3 - energy_kwh;
                           s4 = (if old_total > 0
                                 then s3\<lparr>avg_charge_price :=
                                            (avg_charge_price s3 * old_total +
                                             charge_price * energy_kwh)
                                            / total_charged_kwh s3\<rparr>
                                 else s3\<lparr>avg_charge_price := charge_price\<rparr>)
                       in (co\<lparr>last_soc := Some current_soc\<rparr>, d\<lparr>savings := s4\<rparr>)
                     else
                       let discharged_kwh = \<bar>energy_kwh\<bar>;
                           s2 = s1\<lparr>total_discharged_kwh :=
                                      total_discharged_kwh s1 + discharged_kwh,
                                   session_discharged_kwh :=
                                      session_discharged_kwh s1 + discharged_kwh\<rparr>;
                           s3 = s2\<lparr>avg_discharge_price := current_price\<rparr>;
                           s4 = (if avg_charge_price s3 > 0
                                 then
                                   let price_diff = current_price - avg_charge_price s3;
                                       savings' = price_diff * discharged_kwh
                                   in s3\<lparr>total_savings_eur := total_savings_eur s3 + savings',
                                         session_savings_eur :=
                                           session_savings_eur s3 + savings',
                                         today_savings_eur := today_savings_eur s3 + savings'\<rparr>
                                 else s3)
                       in (co\<lparr>last_soc := Some current_soc\<rparr>, d\<lparr>savings := s4\<rparr>))"

text \<open>
  The energy that \<^verbatim>\<open>_update_savings\<close> derives from the change of the state of charge, in
  kWh: \<^verbatim>\<open>((current_soc - last_soc) / 100) * capacity_wh / 1000\<close>.
\<close>

definition soc_energy_kwh :: "Coordinator \<Rightarrow> EOSData \<Rightarrow> real \<Rightarrow> real" where
  "soc_energy_kwh co d last_soc' =
     ((soc (battery d) - last_soc') / 100) * battery_capacity_wh co / 1000"

subsection \<open>Running an optimization\<close>

text \<open>
  The exceptions the handlers of \<^verbatim>\<open>async_run_optimization\<close> tell apart:
  \<^verbatim>\<open>asyncio.TimeoutError\<close>; \<^verbatim>\<open>aiohttp.ClientError\<close>; \<^verbatim>\<open>aiohttp.ServerTimeoutError\<close>, a
  subclass of both; any other subclass of \<^verbatim>\<open>Exception\<close>; and
  \<^verbatim>\<open>asyncio.CancelledError\<close>, which like \<^verbatim>\<open>KeyboardInterrupt\<close> derives from
  \<^verbatim>\<open>BaseException\<close> only and is raised at an \<^verbatim>\<open>await\<close> when the task is cancelled.
\<close>

datatype py_exception =
  TimeoutError | ClientError | ServerTimeoutError | OtherException | CancelledError

fun is_TimeoutError :: "py_exception \<Rightarrow> bool" where
  "is_TimeoutError TimeoutError = True"
| "is_TimeoutError ServerTimeoutError = True"
| "is_TimeoutError _ = False"

fun is_ClientError :: "py_exception \<Rightarrow> bool" where
  "is_ClientError ClientError = True"
| "is_ClientError ServerTimeoutError = True"
| "is_ClientError _ = False"

fun is_Exception :: "py_exception \<Rightarrow> bool" where
  "is_Exception CancelledError = False"
| "is_Exception _ = True"

text \<open>
  The JSON object the EOS server answers with, by the keys the parser reads; \<^term>\<open>None\<close>
  is an absent key, \<open>json_error\<close> says whether the key \<^verbatim>\<open>error\<close> is present.
\<close>

record eos_result =
  akku_soc_pro_stunde :: "real list option"
  Gesamtkosten_Euro :: "real option"
  Gesamt_Verluste :: "real option"
  Netzbezug_Wh_pro_Stunde :: "real list option"
  Netzeinspeisung_Wh_pro_Stunde :: "real list option"
  Last_Wh_pro_Stunde :: "real list option"

record eos_response =
  json_error :: bool
  json_ac_charge :: "real list option"
  json_dc_charge :: "real list option"
  json_discharge_allowed :: "real list option"
  json_result :: "eos_result option"
  json_start_solution :: "real list option"
  json_washingstart :: "int option"

definition get_or :: "'a option \<Rightarrow> 'a \<Rightarrow> 'a" where
  "get_or v dflt = (case v of Some x \<Rightarrow> x | None \<Rightarrow> dflt)"

text \<open>
  \<^verbatim>\<open>_parse_optimization_response\<close>: it returns the result and, as the source does through
  \<^verbatim>\<open>self._data\<close>, stores the start solution and the home appliance hour in the client
  data. \<^verbatim>\<open>bool(x)\<close> on a number is \<open>x \<noteq> 0\<close>.
\<close>

definition parse_optimization_response ::
  "int \<Rightarrow> eos_response \<Rightarrow> EOSData \<Rightarrow> OptimizationResult \<times> EOSData" where
  "parse_optimization_response current_hour response d =
     (if json_error response then (OptimizationResult_init, d)
      else
        let r1 = OptimizationResult_init
                   \<lparr> ac_charge := get_or (json_ac_charge response) (replicate EOS_TGT_DURATION 0),
                     dc_charge := get_or (json_dc_charge response) (replicate EOS_TGT_DURATION 1),
                     opt_discharge_allowed :=
                       map (\<lambda>x. x \<noteq> 0)
                         (get_or (json_discharge_allowed response)
                            (replicate EOS_TGT_DURATION 1)) \<rparr>;
            r2 = (case json_result response of
                    None \<Rightarrow> r1
                  | Some res \<Rightarrow>
                      r1\<lparr> soc_forecast := get_or (akku_soc_pro_stunde res) [],
                          cost_total := get_or (Gesamtkosten_Euro res) 0,
                          losses_total := get_or (Gesamt_Verluste res) 0,
                          grid_import := get_or (Netzbezug_Wh_pro_Stunde res) [],
                          grid_export := get_or (Netzeinspeisung_Wh_pro_Stunde res) [],
                          load_forecast := get_or (Last_Wh_pro_Stunde res) [] \<rparr>);
            d1 = (case json_start_solution response of
                    Some sol \<Rightarrow> if length sol > 1 then d\<lparr>last_start_solution := Some sol\<rparr> else d
                  | None \<Rightarrow> d);
            r3 = r2\<lparr>opt_home_appliance_start_hour := json_washingstart response\<rparr>;
            d2 = (case opt_home_appliance_start_hour r3 of
                    Some h \<Rightarrow>
                      d1\<lparr> home_appliance_start_hour := Some h,
                          home_appliance_released := (h = current_hour) \<rparr>
                  | None \<Rightarrow> d1)
        in (r3, d2))"

text \<open>
  The environment of one run: the updates before the request (\<^verbatim>\<open>_update_battery_soc\<close> to
  \<^verbatim>\<open>_update_battery_state\<close>), which return the data as far as they got and the exception
  they raised, if any; the answer to the POST of the request, or the exception that
  \<^verbatim>\<open>_get_session\<close> or the POST raised; the event bus. A response carries its status, its
  body as parsed JSON (or the exception that \<^verbatim>\<open>resp.json()\<close> or the parser raised on it)
  and its body as text.
\<close>

record http_response =
  resp_status :: nat
  resp_json :: "py_exception + eos_response"
  resp_text :: "py_exception + string"

record run_env =
  env_update_inputs :: "EOSData \<Rightarrow> EOSData \<times> py_exception option"
  env_post :: "request \<Rightarrow> py_exception + http_response"
  env_fire_control_event :: "EOSData \<Rightarrow> py_exception option"
  env_current_hour :: int

text \<open>
  The body of the \<^verbatim>\<open>try\<close> block: the client data when the block was left, and the
  exception that left it, if any.
\<close>

definition run_optimization_body ::
  "bool \<Rightarrow> config \<Rightarrow> run_env \<Rightarrow> EOSData \<Rightarrow> EOSData \<times> py_exception option" where
  "run_optimization_body at_least_0_0_2 cfg env d =
     (case env_update_inputs env d of
        (d1, Some e) \<Rightarrow> (d1, Some e)
      | (d1, None) \<Rightarrow>
          let request_data = build_optimization_request at_least_0_0_2 cfg d1
          in case env_post env request_data of
               Inl e \<Rightarrow> (d1, Some e)
             | Inr resp \<Rightarrow>
                 if resp_status resp = 200 then
                   (case resp_json resp of
                      Inl e \<Rightarrow> (d1, Some e)
                    | Inr response_data \<Rightarrow>
                        let (res, d2) =
                              parse_optimization_response (env_current_hour env) response_data d1;
                            d3 = d2\<lparr>optimization := res\<rparr>;
                            d4 = update_control_state cfg d3;
                            d5 = d4\<lparr>optimization_state := ''ok''\<rparr>
                        in (d5, env_fire_control_event env d5))
                 else
                   (case resp_text resp of
                      Inl e \<Rightarrow> (d1, Some e)
                    | Inr response_text \<Rightarrow> (d1\<lparr>optimization_state := ''error''\<rparr>, None)))"

text \<open>
  The \<^verbatim>\<open>except\<close> clauses, in the source's order; an exception that none of them matches
  leaves the function.
\<close>

definition run_optimization_handlers ::
  "py_exception \<Rightarrow> EOSData \<Rightarrow> EOSData \<times> py_exception option" where
  "run_optimization_handlers e d =
     (if is_TimeoutError e then (d\<lparr>optimization_state := ''timeout''\<rparr>, None)
      else if is_ClientError e then (d\<lparr>optimization_state := ''connection_error''\<rparr>, None)
      else if is_Exception e then (d\<lparr>optimization_state := ''error''\<rparr>, None)
      else (d, Some e))"

text \<open>
  \<^verbatim>\<open>async_run_optimization\<close>: the client data afterwards, and the exception that reaches
  the caller, if any.
\<close>

definition async_run_optimization ::
  "bool \<Rightarrow> config \<Rightarrow> run_env \<Rightarrow> EOSData \<Rightarrow> EOSData \<times> py_exception option" where
  "async_run_optimization at_least_0_0_2 cfg env d =
     (case run_optimization_body at_least_0_0_2 cfg env d of
        (d', None) \<Rightarrow> (d', None)
      | (d', Some e) \<Rightarrow> run_optimization_handlers e d')"

text \<open>Example environments: the POST is cancelled; the POST times out; the server answers 200.\<close>

definition cancelled_env :: run_env where
  "cancelled_env =
     \<lparr> env_update_inputs = (\<lambda>d. (d, None)), env_post = (\<lambda>r. Inl CancelledError),
       env_fire_control_event = (\<lambda>d. None), env_current_hour = 12 \<rparr>"

definition answer_200 :: http_response where
  "answer_200 =
     \<lparr> resp_status = 200,
       resp_json = Inr \<lparr> json_error = False, json_ac_charge = Some [0.5, 0],
                         json_dc_charge = Some [1, 1], json_discharge_allowed = Some [1, 0],
                         json_result = None, json_start_solution = None,
                         json_washingstart = None \<rparr>,
       resp_text = Inr [] \<rparr>"

definition ok_env :: run_env where
  "ok_env =
     \<lparr> env_update_inputs = (\<lambda>d. (d, None)), env_post = (\<lambda>r. Inr answer_200),
       env_fire_control_event = (\<lambda>d. None), env_current_hour = 12 \<rparr>"

definition timeout_env :: run_env where
  "timeout_env =
     \<lparr> env_update_inputs = (\<lambda>d. (d, None)), env_post = (\<lambda>r. Inl TimeoutError),
       env_fire_control_event = (\<lambda>d. None), env_current_hour = 12 \<rparr>"



subsection \<open>Python values in sensor attributes\<close>

text \<open>
  The attributes of a price sensor are JSON-like Python values. A \<^verbatim>\<open>dict\<close> lists its
  items in insertion order.
\<close>

datatype pyval =
  PNone | PBool bool | PNum real | PStr string | PList "pyval list" | PDict "(string \<times> pyval) list"

text \<open>Truthiness, as \<^verbatim>\<open>not x\<close> and \<^verbatim>\<open>x or y\<close> test it.\<close>

fun truthy :: "pyval \<Rightarrow> bool" where
  "truthy PNone = False"
| "truthy (PBool b) = b"
| "truthy (PNum x) = (x \<noteq> 0)"
| "truthy (PStr s) = (s \<noteq> [])"
| "truthy (PList xs) = (xs \<noteq> [])"
| "truthy (PDict kvs) = (kvs \<noteq> [])"

definition py_or :: "pyval \<Rightarrow> pyval \<Rightarrow> pyval" where
  "py_or a b = (if truthy a then a else b)"

text \<open>\<^verbatim>\<open>d.get(key)\<close> on the items of a dict: \<^verbatim>\<open>None\<close> for a missing key.\<close>

definition dict_get :: "(string \<times> pyval) list \<Rightarrow> string \<Rightarrow> pyval" where
  "dict_get kvs key = (case map_of kvs key of Some v \<Rightarrow> v | None \<Rightarrow> PNone)"

text \<open>
  \<^verbatim>\<open>float(x)\<close>; \<^term>\<open>None\<close> when it raises. What \<^verbatim>\<open>float\<close> makes of a string is the
  parameter \<open>float_str\<close>.
\<close>

fun py_float :: "(string \<Rightarrow> real option) \<Rightarrow> pyval \<Rightarrow> real option" where
  "py_float float_str (PNum x) = Some x"
| "py_float float_str (PBool b) = Some (if b then 1 else 0)"
| "py_float float_str (PStr s) = float_str s"
| "py_float float_str _ = None"

text \<open>\<^verbatim>\<open>int(x)\<close> on a float truncates towards zero.\<close>

definition py_int :: "real \<Rightarrow> int" where
  "py_int x = (if 0 \<le> x then \<lfloor>x\<rfloor> else \<lceil>x\<rceil>)"

subsection \<open>Parsing price lists into hourly and quarter-hourly series\<close>

text \<open>
  Both parsers collect two dicts: \<^verbatim>\<open>hourly_prices\<close> (hour index to the list of prices
  seen for that hour) and \<^verbatim>\<open>prices_15min_dict\<close> (slot index to price). An assignment
  \<^verbatim>\<open>d[k] = v\<close> is \<^term>\<open>AList.update k v d\<close>: the place of an existing key, the end
  for a new one.

  The time arithmetic of the \<^verbatim>\<open>datetime\<close> library is the parameter \<open>secs\<close>: for a
  time stamp value \<open>v\<close>, \<open>secs v\<close> is
  \<^verbatim>\<open>(datetime.fromisoformat(str(v).replace("Z", "+00:00")) - now).total_seconds()\<close>,
  and \<^term>\<open>None\<close> when parsing or the subtraction raises. An exception anywhere in the
  \<^verbatim>\<open>try\<close> block of an entry ends that entry and keeps what was stored before.
\<close>

type_synonym price_dicts = "(int \<times> real list) list \<times> (int \<times> real) list"

definition hourly_lookup :: "(int \<times> real list) list \<Rightarrow> int \<Rightarrow> real list" where
  "hourly_lookup hourly_prices hour_idx =
     (case map_of hourly_prices hour_idx of Some price_list \<Rightarrow> price_list | None \<Rightarrow> [])"


definition append_hourly ::
  "real \<Rightarrow> real \<Rightarrow> (int \<times> real list) list \<Rightarrow> (int \<times> real list) list" where
  "append_hourly total_minutes_diff price_value hourly_prices =
     (let hours_diff = total_minutes_diff / 60
      in if - 1 \<le> hours_diff \<and> hours_diff < 48 then
           let hour_idx = max 0 (py_int hours_diff)
           in if hour_idx < 48 then
                let hourly_prices' =
                      (if map_of hourly_prices hour_idx = None
                       then AList.update hour_idx [] hourly_prices
                       else hourly_prices)
                in AList.update hour_idx
                     (hourly_lookup hourly_prices' hour_idx @ [price_value]) hourly_prices'
              else hourly_prices
         else hourly_prices)"

text \<open>
  The same two blocks in \<^verbatim>\<open>_parse_tibber_prices_dual\<close>, where \<^verbatim>\<open>float(price)\<close> is
  evaluated inside them and may raise: the first block then stores nothing
  (\<^term>\<open>None\<close>), the second has at most created the empty list of the hour.
\<close>

definition tibber_store_slot ::
  "(string \<Rightarrow> real option) \<Rightarrow> real \<Rightarrow> pyval \<Rightarrow> (int \<times> real) list \<Rightarrow> (int \<times> real) list option"
  where
  "tibber_store_slot float_str total_minutes_diff price prices_15min_dict =
     (let slot_15min = py_int (total_minutes_diff / 15)
      in if - 4 \<le> slot_15min \<and> slot_15min < 192 then
           let slot_idx = max 0 slot_15min
           in if slot_idx < 192
              then (case py_float float_str price of
                      None \<Rightarrow> None
                    | Some p \<Rightarrow> Some (AList.update slot_idx p prices_15min_dict))
              else Some prices_15min_dict
         else Some prices_15min_dict)"

definition tibber_append_hourly ::
  "(string \<Rightarrow> real option) \<Rightarrow> real \<Rightarrow> pyval \<Rightarrow> (int \<times> real list) list \<Rightarrow>
     (int \<times> real list) list" where
  "tibber_append_hourly float_str total_minutes_diff price hourly_prices =
     (let hours_diff = total_minutes_diff / 60
      in if - 1 \<le> hours_diff \<and> hours_diff < 48 then
           let hour_idx = max 0 (py_int hours_diff)
           in if hour_idx < 48 then
                let hourly_prices' =
                      (if map_of hourly_prices hour_idx = None
                       then AList.update hour_idx [] hourly_prices
                       else hourly_prices)
                in case py_float float_str price of
                     None \<Rightarrow> hourly_prices'
                   | Some p \<Rightarrow>
                       AList.update hour_idx
                         (hourly_lookup hourly_prices' hour_idx @ [p]) hourly_prices'
              else hourly_prices
         else hourly_prices)"

text \<open>The body of the loop of \<^verbatim>\<open>_parse_tibber_prices_dual\<close> for one entry.\<close>

definition tibber_entry ::
  "(pyval \<Rightarrow> real option) \<Rightarrow> (string \<Rightarrow> real option) \<Rightarrow> pyval \<Rightarrow> price_dicts \<Rightarrow> price_dicts"
  where
  "tibber_entry secs float_str entry acc =
     (let (hourly_prices, prices_15min_dict) = acc
      in case entry of
           PDict kvs \<Rightarrow>
             let from_str = py_or (dict_get kvs ''from'') (dict_get kvs ''startsAt'');
                 price = py_or (dict_get kvs ''price'') (dict_get kvs ''total'')
             in if \<not> truthy from_str \<or> price = PNone then acc
                else
                  (case secs from_str of
                     None \<Rightarrow> acc
                   | Some seconds \<Rightarrow>
                       let total_minutes_diff = seconds / 60
                       in case tibber_store_slot float_str total_minutes_diff price
                                 prices_15min_dict of
                            None \<Rightarrow> acc
                          | Some prices_15min_dict' \<Rightarrow>
                              (tibber_append_hourly float_str total_minutes_diff price
                                 hourly_prices,
                               prices_15min_dict'))
         | _ \<Rightarrow> acc)"

text \<open>
  \<^verbatim>\<open>prices_hourly = [0.30] * 48\<close>, then for every item of the dict, in its order, the
  mean of a non-empty list at its hour.
\<close>

definition set_hourly_mean :: "int \<times> real list \<Rightarrow> real list \<Rightarrow> real list" where
  "set_hourly_mean item prices_hourly =
     (let (hour_idx, price_list) = item
      in if 0 \<le> hour_idx \<and> hour_idx < 48 \<and> price_list \<noteq> []
         then prices_hourly[nat hour_idx := sum_list price_list / real (length price_list)]
         else prices_hourly)"

definition build_prices_hourly :: "(int \<times> real list) list \<Rightarrow> real list" where
  "build_prices_hourly hourly_prices = fold set_hourly_mean hourly_prices (replicate 48 0.30)"

text \<open>\<^verbatim>\<open>prices_15min = [0.30] * 192\<close>, then every slot of the dict.\<close>

definition set_slot_price :: "int \<times> real \<Rightarrow> real list \<Rightarrow> real list" where
  "set_slot_price item prices_15min' =
     (let (slot_idx, price) = item
      in if 0 \<le> slot_idx \<and> slot_idx < 192 then prices_15min'[nat slot_idx := price]
         else prices_15min')"

definition build_prices_15min :: "(int \<times> real) list \<Rightarrow> real list" where
  "build_prices_15min prices_15min_dict =
     fold set_slot_price prices_15min_dict (replicate 192 0.30)"

text \<open>The end of both parsers: the two series, the second one expanded from the first
  when the dict of slots is empty.\<close>

definition finish_prices_dual :: "price_dicts \<Rightarrow> real list \<times> real list" where
  "finish_prices_dual acc =
     (let (hourly_prices, prices_15min_dict) = acc;
          prices_hourly = build_prices_hourly hourly_prices;
          prices_15min' = build_prices_15min prices_15min_dict
      in (prices_hourly,
          if prices_15min_dict = [] then expand_hourly_to_15min prices_hourly else prices_15min'))"

definition tibber_collect ::
  "(pyval \<Rightarrow> real option) \<Rightarrow> (string \<Rightarrow> real option) \<Rightarrow> pyval list \<Rightarrow> price_dicts" where
  "tibber_collect secs float_str prices_data = fold (tibber_entry secs float_str) prices_data ([], [])"

definition parse_tibber_prices_dual ::
  "(pyval \<Rightarrow> real option) \<Rightarrow> (string \<Rightarrow> real option) \<Rightarrow> pyval list \<Rightarrow> real list \<times> real list"
  where
  "parse_tibber_prices_dual secs float_str prices_data =
     finish_prices_dual (tibber_collect secs float_str prices_data)"




text \<open>
  An example clock: time stamps written as the number of minutes after now, and a
  \<^verbatim>\<open>float\<close> that parses no string.
\<close>

definition example_secs :: "pyval \<Rightarrow> real option" where
  "example_secs v =
     (case v of
        PStr s \<Rightarrow>
          map_of [(''now'', 0), (''now+15min'', 900), (''now+60min'', 3600),
                  (''now+75min'', 4500), (''now-30min'', - 1800)] s
      | _ \<Rightarrow> None)"

definition no_float_str :: "string \<Rightarrow> real option" where
  "no_float_str s = None"




text \<open>
  What an entry contributes to the hourly series of \<^verbatim>\<open>_parse_tibber_prices_dual\<close>: its
  price, \<^verbatim>\<open>float(entry.get("price") or entry.get("total"))\<close>, at the hour its time stamp
  \<^verbatim>\<open>from\<close> (or \<^verbatim>\<open>startsAt\<close>) maps to, when the time stamp lies between one hour before
  now and 48 hours after now; time stamps of the past hour are clamped to hour 0.
\<close>

definition tibber_contribution ::
  "(pyval \<Rightarrow> real option) \<Rightarrow> (string \<Rightarrow> real option) \<Rightarrow> pyval \<Rightarrow> (int \<times> real) option" where
  "tibber_contribution secs float_str entry =
     (case entry of
        PDict kvs \<Rightarrow>
          let from_str = py_or (dict_get kvs ''from'') (dict_get kvs ''startsAt'');
              price = py_or (dict_get kvs ''price'') (dict_get kvs ''total'')
          in if \<not> truthy from_str then None
             else (case (secs from_str, py_float float_str price) of
                     (Some seconds, Some p) \<Rightarrow>
                       if - 3600 \<le> seconds \<and> seconds < 48 * 3600
                       then Some (max 0 (py_int (seconds / 3600)), p) else None
                   | _ \<Rightarrow> None)
      | _ \<Rightarrow> None)"

text \<open>The prices that the entries of a list contribute to hour \<open>h\<close>, in their order.\<close>

definition hour_prices ::
  "(pyval \<Rightarrow> real option) \<Rightarrow> (string \<Rightarrow> real option) \<Rightarrow> pyval list \<Rightarrow> int \<Rightarrow> real list" where
  "hour_prices secs float_str prices_data h =
     map snd (filter (\<lambda>c. fst c = h)
       (List.map_filter (tibber_contribution secs float_str) prices_data))"

section \<open>Properties\<close>

subsection \<open>Quarter-hour expansion\<close>

lemma pad_15min_eq: "pad_15min xs = xs @ replicate (192 - length xs) 0.30"
proof (induction xs rule: pad_15min.induct)
  case (1 xs)
  show ?case
  proof (cases "length xs < 192")
    case True
    then have "192 - length xs = Suc (192 - length (xs @ [0.30::real]))"
      by simp
    with True 1 show ?thesis
      by (subst pad_15min.simps) (simp add: replicate_app_Cons_same)
  next
    case False
    then show ?thesis
      by (subst pad_15min.simps) simp
  qed
qed

lemma extend_fold_eq:
  "fold (\<lambda>price acc. acc @ replicate 4 price) xs acc0 = acc0 @ concat (map (replicate 4) xs)"
  by (induction xs arbitrary: acc0) simp_all

lemma length_concat_replicate4: "length (concat (map (replicate 4) xs)) = 4 * length xs"
  by (induction xs) simp_all

lemma nth_concat_replicate4:
  "i < 4 * length xs \<Longrightarrow> concat (map (replicate 4) xs) ! i = xs ! (i div 4)"
proof (induction xs arbitrary: i)
  case Nil
  then show ?case by simp
next
  case (Cons x xs)
  show ?case
  proof (cases "i < 4")
    case True
    then show ?thesis by (simp add: nth_append)
  next
    case False
    then have "(i - 4) div 4 = i div 4 - 1" and "i div 4 \<noteq> 0" and "i - 4 < 4 * length xs"
      using Cons.prems by auto
    with False Cons.IH [of "i - 4"] show ?thesis
      by (simp add: nth_append nth_Cons')
  qed
qed

lemma expand_hourly_to_15min_eq:
  "expand_hourly_to_15min hp =
     take 192 (concat (map (replicate 4) (take 48 hp)) @ replicate (192 - 4 * min (length hp) 48) 0.30)"
  by (simp add: expand_hourly_to_15min_def pad_15min_eq extend_fold_eq length_concat_replicate4)

lemma length_expand_hourly_to_15min: "length (expand_hourly_to_15min hp) = 192"
  by (simp add: expand_hourly_to_15min_eq length_concat_replicate4)

lemma nth_expand_hourly_to_15min:
  assumes "i < 192"
  shows "expand_hourly_to_15min hp ! i = (if i div 4 < length hp then hp ! (i div 4) else 0.30)"
proof (cases "i div 4 < length hp")
  case True
  with assms have "i < 4 * length (take 48 hp)" and "i div 4 < 48"
    by auto
  with True assms show ?thesis
    by (simp add: expand_hourly_to_15min_eq nth_append length_concat_replicate4
        nth_concat_replicate4)
next
  case False
  with assms have "\<not> i < 4 * length (take 48 hp)"
    by auto
  with False assms show ?thesis
    by (simp add: expand_hourly_to_15min_eq nth_append length_concat_replicate4)
qed

text \<open>
  C4. For every input list \<^verbatim>\<open>_expand_hourly_to_15min\<close> returns exactly 192 elements. With
  at least 48 input elements, output element \<open>i\<close> is input element \<open>i div 4\<close> (every hourly
  price four times); with fewer, the same holds for the slots the input covers and every
  trailing slot is 0.30.
\<close>

theorem expand_hourly_to_15min_shape:
  "length (expand_hourly_to_15min hp) = 192 \<and>
   (48 \<le> length hp \<longrightarrow> (\<forall>i<192. expand_hourly_to_15min hp ! i = hp ! (i div 4))) \<and>
   (length hp < 48 \<longrightarrow>
      (\<forall>i<192. expand_hourly_to_15min hp ! i =
         (if i < 4 * length hp then hp ! (i div 4) else 0.30)))"
proof (intro conjI impI allI)
  show "length (expand_hourly_to_15min hp) = 192"
    by (rule length_expand_hourly_to_15min)
next
  fix i :: nat
  assume "48 \<le> length hp" and i: "i < 192"
  then have "i div 4 < length hp"
    by auto
  with i show "expand_hourly_to_15min hp ! i = hp ! (i div 4)"
    by (simp add: nth_expand_hourly_to_15min)
next
  fix i :: nat
  assume "length hp < 48" and "i < 192"
  moreover have "i div 4 < length hp \<longleftrightarrow> i < 4 * length hp"
    by auto
  ultimately show "expand_hourly_to_15min hp ! i =
      (if i < 4 * length hp then hp ! (i div 4) else 0.30)"
    by (simp add: nth_expand_hourly_to_15min)
qed

theorem expand_hourly_to_15min_shape_witness:
  "length (expand_hourly_to_15min [0.10, 0.20]) = 192 \<and>
   expand_hourly_to_15min [0.10, 0.20] ! 5 = 0.20 \<and>
   expand_hourly_to_15min [0.10, 0.20] ! 8 = 0.30 \<and>
   expand_hourly_to_15min (replicate 48 0.25 @ [0.90]) ! 191 = 0.25"
  using expand_hourly_to_15min_shape [of "[0.10, 0.20]"]
    expand_hourly_to_15min_shape [of "replicate 48 0.25 @ [0.90]"]
  by (simp add: nth_append)

subsection \<open>The request's arrays\<close>





subsection \<open>The control state\<close>

text \<open>
  C3. With non-empty \<^verbatim>\<open>ac_charge\<close>, \<^verbatim>\<open>dc_charge\<close> and \<^verbatim>\<open>discharge_allowed\<close> schedules,
  \<^verbatim>\<open>_update_control_state\<close> sets \<^verbatim>\<open>ac_charge_demand\<close> to \<^verbatim>\<open>ac_charge[0]\<close> times the
  configured maximal grid charge rate and \<^verbatim>\<open>dc_charge_demand\<close> to \<^verbatim>\<open>dc_charge[0]\<close> times
  the configured maximal PV charge rate; when no override is active the mode becomes
  CHARGE_FROM_GRID if the new \<^verbatim>\<open>ac_charge_demand\<close> is positive, otherwise AVOID_DISCHARGE
  if \<^verbatim>\<open>discharge_allowed[0]\<close> is false, otherwise DISCHARGE_ALLOWED.
\<close>

theorem update_control_state_demands_and_mode:
  "ac_charge (optimization d) \<noteq> [] \<Longrightarrow> dc_charge (optimization d) \<noteq> [] \<Longrightarrow>
   opt_discharge_allowed (optimization d) \<noteq> [] \<Longrightarrow>
   ac_charge_demand (control (update_control_state cfg d)) =
     ac_charge (optimization d) ! 0 *
     config_get cfg CONF_MAX_GRID_CHARGE_RATE DEFAULT_BATTERY_MAX_CHARGE \<and>
   dc_charge_demand (control (update_control_state cfg d)) =
     dc_charge (optimization d) ! 0 *
     config_get cfg CONF_MAX_PV_CHARGE_RATE DEFAULT_BATTERY_MAX_CHARGE \<and>
   (\<not> override_active (control d) \<longrightarrow>
      mode (control (update_control_state cfg d)) =
        (if ac_charge_demand (control (update_control_state cfg d)) > 0 then CHARGE_FROM_GRID
         else if \<not> opt_discharge_allowed (optimization d) ! 0 then AVOID_DISCHARGE
         else DISCHARGE_ALLOWED))"
  by (simp add: update_control_state_def Let_def)

theorem update_control_state_demands_and_mode_witness:
  "ac_charge_demand (control (update_control_state (Map.empty(CONF_MAX_GRID_CHARGE_RATE \<mapsto> 3000))
      (EOSData_init\<lparr>optimization := OptimizationResult_init
         \<lparr>ac_charge := [0.5, 0], dc_charge := [1, 1], opt_discharge_allowed := [False, True]\<rparr>\<rparr>)))
     = 1500 \<and>
   dc_charge_demand (control (update_control_state (Map.empty(CONF_MAX_GRID_CHARGE_RATE \<mapsto> 3000))
      (EOSData_init\<lparr>optimization := OptimizationResult_init
         \<lparr>ac_charge := [0.5, 0], dc_charge := [1, 1], opt_discharge_allowed := [False, True]\<rparr>\<rparr>)))
     = 5000 \<and>
   mode (control (update_control_state (Map.empty(CONF_MAX_GRID_CHARGE_RATE \<mapsto> 3000))
      (EOSData_init\<lparr>optimization := OptimizationResult_init
         \<lparr>ac_charge := [0.5, 0], dc_charge := [1, 1], opt_discharge_allowed := [False, True]\<rparr>\<rparr>)))
     = CHARGE_FROM_GRID"
  using update_control_state_demands_and_mode
    [of "EOSData_init\<lparr>optimization := OptimizationResult_init
         \<lparr>ac_charge := [0.5, 0], dc_charge := [1, 1], opt_discharge_allowed := [False, True]\<rparr>\<rparr>"
        "Map.empty(CONF_MAX_GRID_CHARGE_RATE \<mapsto> 3000)"]
  by (simp add: EOSData_init_def OptimizationResult_init_def ControlState_init_def config_get_def
      CONF_MAX_GRID_CHARGE_RATE_def CONF_MAX_PV_CHARGE_RATE_def DEFAULT_BATTERY_MAX_CHARGE_def)

text \<open>
  C9. If any of the \<^verbatim>\<open>ac_charge\<close>, \<^verbatim>\<open>dc_charge\<close> or \<^verbatim>\<open>discharge_allowed\<close> schedules of the
  optimization result is empty, \<^verbatim>\<open>_update_control_state\<close> returns without modifying
  anything: the whole client state, and with it the mode, both charge demands and the
  discharge permission of the control state, keep their previous values.
\<close>

theorem update_control_state_empty_schedule:
  "ac_charge (optimization d) = [] \<or> dc_charge (optimization d) = [] \<or>
     opt_discharge_allowed (optimization d) = [] \<Longrightarrow>
   update_control_state cfg d = d \<and>
   mode (control (update_control_state cfg d)) = mode (control d) \<and>
   ac_charge_demand (control (update_control_state cfg d)) = ac_charge_demand (control d) \<and>
   dc_charge_demand (control (update_control_state cfg d)) = dc_charge_demand (control d) \<and>
   discharge_allowed (control (update_control_state cfg d)) = discharge_allowed (control d)"
  by (simp add: update_control_state_def Let_def)

theorem update_control_state_empty_schedule_witness:
  "update_control_state Map.empty
     (EOSData_init\<lparr>optimization := OptimizationResult_init
        \<lparr>ac_charge := [1], dc_charge := [], opt_discharge_allowed := [False]\<rparr>\<rparr>) =
   EOSData_init\<lparr>optimization := OptimizationResult_init
        \<lparr>ac_charge := [1], dc_charge := [], opt_discharge_allowed := [False]\<rparr>\<rparr> \<and>
   mode (control (update_control_state Map.empty
     (EOSData_init\<lparr>optimization := OptimizationResult_init
        \<lparr>ac_charge := [1], dc_charge := [], opt_discharge_allowed := [False]\<rparr>\<rparr>))) = AUTO"
  using update_control_state_empty_schedule
    [of "EOSData_init\<lparr>optimization := OptimizationResult_init
        \<lparr>ac_charge := [1], dc_charge := [], opt_discharge_allowed := [False]\<rparr>\<rparr>" Map.empty]
  by (simp add: EOSData_init_def OptimizationResult_init_def ControlState_init_def)

subsection \<open>EVCC battery mode is set only on change\<close>






subsection \<open>Savings\<close>



text \<open>
  The counter of charged energy starts at 0 and only grows: it is never negative.
\<close>

lemma update_savings_total_charged_nonneg:
  assumes "0 \<le> total_charged_kwh (savings d)"
  shows "0 \<le> total_charged_kwh (savings (snd (update_savings today (co, d))))"
proof (cases "last_soc co")
  case None
  with assms show ?thesis
    by (simp add: update_savings_def Let_def)
next
  case (Some l)
  show ?thesis
    unfolding update_savings_def Let_def soc_energy_kwh_def[symmetric]
    using assms Some by simp
qed

lemma SavingsTracker_init_total_charged: "total_charged_kwh SavingsTracker_init = 0"
  by (simp add: SavingsTracker_init_def)







subsection \<open>Outcomes of an optimization run\<close>

lemma run_optimization_propagates_only_BaseException:
  assumes "snd (async_run_optimization v cfg env d) = Some e"
  shows "\<not> is_Exception e"
proof -
  obtain d' x where b: "run_optimization_body v cfg env d = (d', x)"
    by (cases "run_optimization_body v cfg env d")
  with assms show ?thesis
    by (cases x)
       (simp_all add: async_run_optimization_def run_optimization_handlers_def split: if_splits)
qed

lemma run_optimization_body_raised:
  assumes "run_optimization_body v cfg env d = (d', Some e)"
  shows "async_run_optimization v cfg env d =
           (if is_TimeoutError e then (d'\<lparr>optimization_state := ''timeout''\<rparr>, None)
            else if is_ClientError e then (d'\<lparr>optimization_state := ''connection_error''\<rparr>, None)
            else if is_Exception e then (d'\<lparr>optimization_state := ''error''\<rparr>, None)
            else (d', Some e))"
  using assms by (simp add: async_run_optimization_def run_optimization_handlers_def)

lemma run_optimization_post_raises:
  assumes "env_update_inputs env d = (d1, None)"
    and "env_post env (build_optimization_request v cfg d1) = Inl e"
  shows "run_optimization_body v cfg env d = (d1, Some e)"
  using assms by (simp add: run_optimization_body_def)

lemma run_optimization_body_completes:
  assumes "run_optimization_body v cfg env d = (d', None)"
  shows "\<exists>d1 resp.
           env_update_inputs env d = (d1, None) \<and>
           env_post env (build_optimization_request v cfg d1) = Inr resp \<and>
           (if resp_status resp = 200
            then \<exists>rd. resp_json resp = Inr rd \<and>
                   d' = (update_control_state cfg
                           ((snd (parse_optimization_response (env_current_hour env) rd d1))
                              \<lparr>optimization :=
                                 fst (parse_optimization_response (env_current_hour env) rd d1)\<rparr>))
                        \<lparr>optimization_state := ''ok''\<rparr>
            else d' = d1\<lparr>optimization_state := ''error''\<rparr>)"
proof -
  obtain d1 x where u: "env_update_inputs env d = (d1, x)"
    by (cases "env_update_inputs env d")
  with assms have x: "x = None"
    by (cases x) (simp_all add: run_optimization_body_def)
  with u assms obtain resp where p: "env_post env (build_optimization_request v cfg d1) = Inr resp"
    by (cases "env_post env (build_optimization_request v cfg d1)")
       (simp_all add: run_optimization_body_def)
  show ?thesis
  proof (cases "resp_status resp = 200")
    case True
    with u x p assms obtain rd where j: "resp_json resp = Inr rd"
      by (cases "resp_json resp") (simp_all add: run_optimization_body_def)
    with True u x p assms show ?thesis
      by (simp add: run_optimization_body_def Let_def split: prod.splits)
  next
    case False
    with u x p assms show ?thesis
      by (cases "resp_text resp") (simp_all add: run_optimization_body_def)
  qed
qed

lemma run_optimization_ok_only_on_200:
  assumes "async_run_optimization v cfg env d = (d', None)"
    and "optimization_state d' = ''ok''"
  shows "\<exists>d1 resp. env_update_inputs env d = (d1, None) \<and>
           env_post env (build_optimization_request v cfg d1) = Inr resp \<and>
           resp_status resp = 200"
proof -
  obtain d2 x where b: "run_optimization_body v cfg env d = (d2, x)"
    by (cases "run_optimization_body v cfg env d")
  show ?thesis
  proof (cases x)
    case None
    with b assms(1) have "d2 = d'"
      by (simp add: async_run_optimization_def)
    with b None have "run_optimization_body v cfg env d = (d', None)"
      by simp
    from run_optimization_body_completes [OF this] obtain d1 resp where
      u: "env_update_inputs env d = (d1, None)" and
      p: "env_post env (build_optimization_request v cfg d1) = Inr resp" and
      c: "resp_status resp \<noteq> 200 \<longrightarrow> d' = d1\<lparr>optimization_state := ''error''\<rparr>"
      by (auto split: if_splits)
    have "resp_status resp = 200"
    proof (rule ccontr)
      assume "resp_status resp \<noteq> 200"
      with c have "optimization_state d' = ''error''"
        by simp
      with assms(2) show False
        by simp
    qed
    with u p show ?thesis
      by blast
  next
    case (Some e)
    with b assms show ?thesis
      by (auto simp: async_run_optimization_def run_optimization_handlers_def split: if_splits)
  qed
qed

text \<open>
  C2, as amended. \<^verbatim>\<open>async_run_optimization\<close> never lets an exception that derives from
  \<^verbatim>\<open>Exception\<close> reach its caller. When a step of the \<^verbatim>\<open>try\<close> block raises (the POST
  of the request among them), the first matching handler decides: a timeout sets
  \<^verbatim>\<open>optimization_state\<close> to \<^verbatim>\<open>timeout\<close>, otherwise a client error to
  \<^verbatim>\<open>connection_error\<close>, otherwise any \<^verbatim>\<open>Exception\<close> to \<^verbatim>\<open>error\<close>; what derives from
  \<^verbatim>\<open>BaseException\<close> only (task cancellation) reaches the caller. When no step raises, a
  status other than 200 sets \<^verbatim>\<open>error\<close>, and status 200 has the response parsed, the
  control state updated and the state set to \<^verbatim>\<open>ok\<close>; a run that ends in \<^verbatim>\<open>ok\<close> saw
  status 200.
\<close>

theorem async_run_optimization_outcomes:
  "(snd (async_run_optimization v cfg env d) = Some e \<longrightarrow> \<not> is_Exception e) \<and>
   (env_update_inputs env d = (d1, None) \<and>
    env_post env (build_optimization_request v cfg d1) = Inl e1 \<longrightarrow>
      run_optimization_body v cfg env d = (d1, Some e1)) \<and>
   (run_optimization_body v cfg env d = (d2, Some e2) \<longrightarrow>
      async_run_optimization v cfg env d =
        (if is_TimeoutError e2 then (d2\<lparr>optimization_state := ''timeout''\<rparr>, None)
         else if is_ClientError e2 then (d2\<lparr>optimization_state := ''connection_error''\<rparr>, None)
         else if is_Exception e2 then (d2\<lparr>optimization_state := ''error''\<rparr>, None)
         else (d2, Some e2))) \<and>
   (run_optimization_body v cfg env d = (d3, None) \<longrightarrow>
      async_run_optimization v cfg env d = (d3, None) \<and>
      (\<exists>d1 resp.
         env_update_inputs env d = (d1, None) \<and>
         env_post env (build_optimization_request v cfg d1) = Inr resp \<and>
         (if resp_status resp = 200
          then \<exists>rd. resp_json resp = Inr rd \<and>
                 d3 = (update_control_state cfg
                         ((snd (parse_optimization_response (env_current_hour env) rd d1))
                            \<lparr>optimization :=
                               fst (parse_optimization_response (env_current_hour env) rd d1)\<rparr>))
                      \<lparr>optimization_state := ''ok''\<rparr>
          else d3 = d1\<lparr>optimization_state := ''error''\<rparr>))) \<and>
   (async_run_optimization v cfg env d = (d4, None) \<and> optimization_state d4 = ''ok'' \<longrightarrow>
      (\<exists>d1 resp. env_update_inputs env d = (d1, None) \<and>
         env_post env (build_optimization_request v cfg d1) = Inr resp \<and>
         resp_status resp = 200))"
proof -
  have a: "snd (async_run_optimization v cfg env d) = Some e \<longrightarrow> \<not> is_Exception e"
    using run_optimization_propagates_only_BaseException by blast
  have b: "env_update_inputs env d = (d1, None) \<and>
      env_post env (build_optimization_request v cfg d1) = Inl e1 \<longrightarrow>
      run_optimization_body v cfg env d = (d1, Some e1)"
    using run_optimization_post_raises by blast
  have c: "run_optimization_body v cfg env d = (d2, Some e2) \<longrightarrow>
      async_run_optimization v cfg env d =
        (if is_TimeoutError e2 then (d2\<lparr>optimization_state := ''timeout''\<rparr>, None)
         else if is_ClientError e2 then (d2\<lparr>optimization_state := ''connection_error''\<rparr>, None)
         else if is_Exception e2 then (d2\<lparr>optimization_state := ''error''\<rparr>, None)
         else (d2, Some e2))"
    using run_optimization_body_raised by blast
  have d: "run_optimization_body v cfg env d = (d3, None) \<longrightarrow>
      async_run_optimization v cfg env d = (d3, None)"
    by (simp add: async_run_optimization_def)
  note e = run_optimization_body_completes [of v cfg env d d3]
  have f: "async_run_optimization v cfg env d = (d4, None) \<and> optimization_state d4 = ''ok'' \<longrightarrow>
      (\<exists>d1 resp. env_update_inputs env d = (d1, None) \<and>
         env_post env (build_optimization_request v cfg d1) = Inr resp \<and>
         resp_status resp = 200)"
    using run_optimization_ok_only_on_200 by blast
  from a b c d e f show ?thesis
    by (intro conjI impI) blast+
qed

theorem async_run_optimization_outcomes_witness:
  "async_run_optimization True Map.empty timeout_env EOSData_init =
     (EOSData_init\<lparr>optimization_state := ''timeout''\<rparr>, None) \<and>
   snd (async_run_optimization True Map.empty ok_env EOSData_init) = None \<and>
   optimization_state (fst (async_run_optimization True Map.empty ok_env EOSData_init)) = ''ok'' \<and>
   ac_charge_demand (control (fst (async_run_optimization True Map.empty ok_env EOSData_init)))
     = 2500"
proof -
  have u: "env_update_inputs timeout_env EOSData_init = (EOSData_init, None)"
    and p: "env_post timeout_env (build_optimization_request True Map.empty EOSData_init) =
      Inl TimeoutError"
    by (simp_all add: timeout_env_def)
  note thm1 = async_run_optimization_outcomes
    [where v = True and cfg = Map.empty and env = timeout_env and d = EOSData_init
       and ?d1.0 = EOSData_init and ?e1.0 = TimeoutError
       and ?d2.0 = EOSData_init and ?e2.0 = TimeoutError]
  from thm1 u p have t: "async_run_optimization True Map.empty timeout_env EOSData_init =
     (EOSData_init\<lparr>optimization_state := ''timeout''\<rparr>, None)"
    by simp
  obtain d3 x where b: "run_optimization_body True Map.empty ok_env EOSData_init = (d3, x)"
    by (cases "run_optimization_body True Map.empty ok_env EOSData_init")
  have x: "x = None"
    using b by (auto simp: run_optimization_body_def ok_env_def answer_200_def Let_def
        split: prod.splits)
  have d3: "ac_charge_demand (control d3) = 2500"
    using b by (auto simp: run_optimization_body_def ok_env_def answer_200_def Let_def
        parse_optimization_response_def update_control_state_def get_or_def
        OptimizationResult_init_def EOSData_init_def ControlState_init_def config_get_def
        DEFAULT_BATTERY_MAX_CHARGE_def split: prod.splits)
  note thm2 = async_run_optimization_outcomes
    [where v = True and cfg = Map.empty and env = ok_env and d = EOSData_init and ?d3.0 = d3]
  from thm2 b x have "async_run_optimization True Map.empty ok_env EOSData_init = (d3, None)"
    and "\<exists>d1 resp. env_update_inputs ok_env EOSData_init = (d1, None) \<and>
         env_post ok_env (build_optimization_request True Map.empty d1) = Inr resp \<and>
         (if resp_status resp = 200
          then \<exists>rd. resp_json resp = Inr rd \<and>
                 d3 = (update_control_state Map.empty
                         ((snd (parse_optimization_response (env_current_hour ok_env) rd d1))
                            \<lparr>optimization :=
                               fst (parse_optimization_response (env_current_hour ok_env) rd d1)\<rparr>))
                      \<lparr>optimization_state := ''ok''\<rparr>
          else d3 = d1\<lparr>optimization_state := ''error''\<rparr>)"
    by blast+
  then have "async_run_optimization True Map.empty ok_env EOSData_init = (d3, None)"
    and "optimization_state d3 = ''ok''"
    by (auto simp: ok_env_def answer_200_def)
  with t d3 show ?thesis
    by simp
qed

text \<open>
  The claim as stated lets no exception reach the caller. When the task is cancelled while
  the POST is awaited, \<^verbatim>\<open>asyncio.CancelledError\<close> passes all three handlers, reaches the
  caller, and \<^verbatim>\<open>optimization_state\<close> keeps its value.
\<close>

theorem async_run_optimization_cancelled_counterexample:
  "async_run_optimization True Map.empty cancelled_env EOSData_init =
     (EOSData_init, Some CancelledError)"
  by (simp add: async_run_optimization_def run_optimization_body_def
      run_optimization_handlers_def cancelled_env_def)

subsection \<open>The price series\<close>

lemma length_set_hourly_mean [simp]: "length (set_hourly_mean kv acc) = length acc"
  by (cases kv) (simp add: set_hourly_mean_def)

lemma length_set_slot_price [simp]: "length (set_slot_price kv acc) = length acc"
  by (cases kv) (simp add: set_slot_price_def)

lemma length_fold_set_hourly_mean: "length (fold set_hourly_mean hp acc) = length acc"
  by (induction hp arbitrary: acc) simp_all

lemma length_fold_set_slot_price: "length (fold set_slot_price qd acc) = length acc"
  by (induction qd arbitrary: acc) simp_all

lemma length_build_prices_hourly: "length (build_prices_hourly hp) = 48"
  by (simp add: build_prices_hourly_def length_fold_set_hourly_mean)

lemma length_build_prices_15min: "length (build_prices_15min qd) = 192"
  by (simp add: build_prices_15min_def length_fold_set_slot_price)

























lemma example_secs_simps:
  "example_secs (PStr ''now'') = Some 0"
  "example_secs (PStr ''now+15min'') = Some 900"
  "example_secs (PStr ''now+60min'') = Some 3600"
  "example_secs (PStr ''now+75min'') = Some 4500"
  "example_secs (PStr ''now-30min'') = Some (- 1800)"
  by (simp_all add: example_secs_def)





subsection \<open>The hourly series of the Tibber parser\<close>

lemma hourly_lookup_update:
  "hourly_lookup (AList.update k l hp) h = (if h = k then l else hourly_lookup hp h)"
  by (simp add: hourly_lookup_def update_conv')

lemma hourly_lookup_new_hour:
  "map_of hp k = None \<Longrightarrow> hourly_lookup (AList.update k [] hp) h = hourly_lookup hp h"
  by (simp add: hourly_lookup_def update_conv')

lemma py_int_less: "x < 48 \<Longrightarrow> max 0 (py_int x) < 48"
  by (auto simp: py_int_def floor_less_iff ceiling_less_iff)

lemma append_hourly_lookup:
  "hourly_lookup (append_hourly tmd p hp) h =
     hourly_lookup hp h @
     (if - 1 \<le> tmd / 60 \<and> tmd / 60 < 48 \<and> max 0 (py_int (tmd / 60)) = h then [p] else [])"
proof (cases "- 1 \<le> tmd / 60 \<and> tmd / 60 < 48")
  case True
  define k where "k = max 0 (py_int (tmd / 60))"
  define hp' where "hp' = (if map_of hp k = None then AList.update k [] hp else hp)"
  from True have k: "k < 48"
    unfolding k_def by (intro py_int_less) simp
  have look: "hourly_lookup hp' h = hourly_lookup hp h" for h
    by (simp add: hp'_def hourly_lookup_new_hour)
  from True k have "append_hourly tmd p hp = AList.update k (hourly_lookup hp' k @ [p]) hp'"
    by (simp add: append_hourly_def Let_def k_def hp'_def)
  with True show ?thesis
    by (simp add: hourly_lookup_update look k_def)
next
  case False
  then show ?thesis
    by (auto simp: append_hourly_def Let_def)
qed

lemma append_hourly_distinct:
  "distinct (map fst hp) \<Longrightarrow> distinct (map fst (append_hourly tmd p hp))"
  by (simp add: append_hourly_def Let_def distinct_update)

lemma tibber_append_hourly_Some:
  "py_float float_str price = Some p \<Longrightarrow>
   tibber_append_hourly float_str tmd price hp = append_hourly tmd p hp"
  by (simp add: tibber_append_hourly_def append_hourly_def Let_def)

lemma tibber_append_hourly_None:
  assumes "py_float float_str price = None"
  shows "hourly_lookup (tibber_append_hourly float_str tmd price hp) h = hourly_lookup hp h"
    and "distinct (map fst hp) \<Longrightarrow>
         distinct (map fst (tibber_append_hourly float_str tmd price hp))"
  using assms
  by (simp_all add: tibber_append_hourly_def Let_def hourly_lookup_new_hour distinct_update)

lemma tibber_store_slot_None:
  "tibber_store_slot float_str tmd price qd = None \<Longrightarrow> py_float float_str price = None"
  by (auto simp: tibber_store_slot_def Let_def split: if_splits option.splits)

lemma tibber_entry_hourly:
  "hourly_lookup (fst (tibber_entry secs float_str entry (hp, qd))) h =
     hourly_lookup hp h @
     (case tibber_contribution secs float_str entry of
        Some c \<Rightarrow> if fst c = h then [snd c] else []
      | None \<Rightarrow> [])"
proof (cases entry)
  case (PDict kvs)
  define from_str where "from_str = py_or (dict_get kvs ''from'') (dict_get kvs ''startsAt'')"
  define price where "price = py_or (dict_get kvs ''price'') (dict_get kvs ''total'')"
  show ?thesis
  proof (cases "\<not> truthy from_str \<or> price = PNone \<or> secs from_str = None")
    case True
    then have "tibber_entry secs float_str entry (hp, qd) = (hp, qd)"
      by (auto simp: tibber_entry_def PDict Let_def simp flip: from_str_def price_def
          split: option.splits)
    moreover from True have "tibber_contribution secs float_str entry = None"
      by (auto simp: tibber_contribution_def PDict Let_def simp flip: from_str_def price_def
          split: option.splits)
    ultimately show ?thesis
      by simp
  next
    case False
    then obtain seconds where s: "secs from_str = Some seconds"
      and t: "truthy from_str" and n: "price \<noteq> PNone"
      by auto
    have entry: "tibber_entry secs float_str entry (hp, qd) =
        (case tibber_store_slot float_str (seconds / 60) price qd of
           None \<Rightarrow> (hp, qd)
         | Some qd' \<Rightarrow> (tibber_append_hourly float_str (seconds / 60) price hp, qd'))"
      using s t n
      by (simp add: tibber_entry_def PDict Let_def flip: from_str_def price_def)
    show ?thesis
    proof (cases "py_float float_str price")
      case None
      then have "tibber_contribution secs float_str entry = None"
        using s t
        by (simp add: tibber_contribution_def PDict Let_def flip: from_str_def price_def)
      moreover have "hourly_lookup (fst (tibber_entry secs float_str entry (hp, qd))) h =
          hourly_lookup hp h"
        by (simp add: entry tibber_append_hourly_None(1) [OF None] split: option.splits)
      ultimately show ?thesis
        by simp
    next
      case (Some p)
      then obtain qd' where "tibber_store_slot float_str (seconds / 60) price qd = Some qd'"
        using tibber_store_slot_None [of float_str "seconds / 60" price qd] by fastforce
      then have "fst (tibber_entry secs float_str entry (hp, qd)) =
          append_hourly (seconds / 60) p hp"
        by (simp add: entry tibber_append_hourly_Some [OF Some])
      moreover have "tibber_contribution secs float_str entry =
          (if - 1 \<le> seconds / 60 / 60 \<and> seconds / 60 / 60 < 48
           then Some (max 0 (py_int (seconds / 60 / 60)), p) else None)"
        using s t Some
        by (simp add: tibber_contribution_def PDict Let_def flip: from_str_def price_def)
      ultimately show ?thesis
        by (simp add: append_hourly_lookup)
    qed
  qed
qed (simp_all add: tibber_entry_def tibber_contribution_def)


lemma tibber_entry_distinct:
  assumes "distinct (map fst hp)"
  shows "distinct (map fst (fst (tibber_entry secs float_str entry (hp, qd))))"
proof (cases entry)
  case (PDict kvs)
  have "distinct (map fst (tibber_append_hourly float_str tmd price hp))" for tmd price
  proof (cases "py_float float_str price")
    case None
    from tibber_append_hourly_None(2) [OF None assms] show ?thesis .
  next
    case (Some p)
    with assms show ?thesis
      by (simp add: tibber_append_hourly_Some append_hourly_distinct)
  qed
  with assms show ?thesis
    by (simp add: tibber_entry_def PDict Let_def split: option.splits)
qed (use assms in \<open>simp_all add: tibber_entry_def\<close>)

lemma hour_prices_Cons:
  "hour_prices secs float_str (entry # prices_data) h =
     (case tibber_contribution secs float_str entry of
        Some c \<Rightarrow> if fst c = h then [snd c] else []
      | None \<Rightarrow> []) @ hour_prices secs float_str prices_data h"
  by (simp add: hour_prices_def List.map_filter_simps split: option.splits)

lemma fold_tibber_entry_hourly:
  assumes "distinct (map fst (fst acc))"
  shows "distinct (map fst (fst (fold (tibber_entry secs float_str) prices_data acc))) \<and>
         hourly_lookup (fst (fold (tibber_entry secs float_str) prices_data acc)) h =
           hourly_lookup (fst acc) h @ hour_prices secs float_str prices_data h"
  using assms
proof (induction prices_data arbitrary: acc)
  case Nil
  then show ?case
    by (simp add: hour_prices_def List.map_filter_simps)
next
  case (Cons entry prices_data)
  obtain hp qd where acc: "acc = (hp, qd)"
    by (cases acc)
  from Cons.prems have "distinct (map fst (fst (tibber_entry secs float_str entry acc)))"
    by (simp add: acc tibber_entry_distinct)
  from Cons.IH [OF this] show ?case
    by (simp add: acc tibber_entry_hourly hour_prices_Cons)
qed

lemma nth_set_hourly_mean:
  assumes "h < length acc"
  shows "set_hourly_mean (k, l) acc ! h =
     (if int h = k \<and> k < 48 \<and> l \<noteq> [] then sum_list l / real (length l) else acc ! h)"
  using assms by (auto simp: set_hourly_mean_def nth_list_update)

lemma nth_fold_set_hourly_mean:
  assumes "distinct (map fst hp)" and "h < length acc" and "h < 48"
  shows "fold set_hourly_mean hp acc ! h =
           (if hourly_lookup hp (int h) = [] then acc ! h
            else sum_list (hourly_lookup hp (int h)) / real (length (hourly_lookup hp (int h))))"
  using assms
proof (induction hp arbitrary: acc)
  case Nil
  then show ?case
    by (simp add: hourly_lookup_def)
next
  case (Cons kv hp)
  obtain k l where kv: "kv = (k, l)"
    by (cases kv)
  from Cons.prems have d: "distinct (map fst hp)" and len: "h < length (set_hourly_mean kv acc)"
    by simp_all
  note ih = Cons.IH [OF d len Cons.prems(3)]
  show ?case
  proof (cases "int h = k")
    case True
    with Cons.prems(1) kv have "map_of hp (int h) = None"
      by (simp add: map_of_eq_None_iff)
    then have "hourly_lookup hp (int h) = []"
      by (simp add: hourly_lookup_def)
    moreover from True kv have "hourly_lookup (kv # hp) (int h) = l"
      by (simp add: hourly_lookup_def)
    ultimately show ?thesis
      using ih True Cons.prems(2,3) by (simp add: kv nth_set_hourly_mean)
  next
    case False
    with kv have "hourly_lookup (kv # hp) (int h) = hourly_lookup hp (int h)"
      by (simp add: hourly_lookup_def)
    with ih False Cons.prems(2) show ?thesis
      by (simp add: kv nth_set_hourly_mean)
  qed
qed

lemma nth_build_prices_hourly:
  assumes "distinct (map fst hp)" and "h < 48"
  shows "build_prices_hourly hp ! h =
           (if hourly_lookup hp (int h) = [] then 0.30
            else sum_list (hourly_lookup hp (int h)) / real (length (hourly_lookup hp (int h))))"
  using nth_fold_set_hourly_mean [OF assms(1), of h "replicate 48 0.30"] assms(2)
  by (simp add: build_prices_hourly_def)

text \<open>
  What \<^verbatim>\<open>_parse_tibber_prices_dual\<close> returns, for every price list and clock: 48 hourly
  prices, each the mean of the prices contributed to its hour, or 0.30 when there are
  none; 192 quarter-hourly prices, which are the hourly ones expanded when no entry
  stored a slot.
\<close>

lemma parse_tibber_prices_dual_hourly:
  "length (fst (parse_tibber_prices_dual secs float_str prices_data)) = 48"
  "h < 48 \<Longrightarrow>
   fst (parse_tibber_prices_dual secs float_str prices_data) ! h =
     (if hour_prices secs float_str prices_data (int h) = [] then 0.30
      else sum_list (hour_prices secs float_str prices_data (int h))
           / real (length (hour_prices secs float_str prices_data (int h))))"
  "length (snd (parse_tibber_prices_dual secs float_str prices_data)) = 192"
  "snd (tibber_collect secs float_str prices_data) = [] \<Longrightarrow>
   snd (parse_tibber_prices_dual secs float_str prices_data) =
     expand_hourly_to_15min (fst (parse_tibber_prices_dual secs float_str prices_data))"
proof -
  obtain hp qd where c: "tibber_collect secs float_str prices_data = (hp, qd)"
    by (cases "tibber_collect secs float_str prices_data")
  from fold_tibber_entry_hourly [of "([], [])" secs float_str prices_data] c
  have d: "distinct (map fst hp)"
    and l: "hourly_lookup hp h = hour_prices secs float_str prices_data h" for h
    using fold_tibber_entry_hourly [of "([], [])" secs float_str prices_data h]
    by (simp_all add: tibber_collect_def hourly_lookup_def)
  show "length (fst (parse_tibber_prices_dual secs float_str prices_data)) = 48"
    by (simp add: parse_tibber_prices_dual_def finish_prices_dual_def c Let_def
        length_build_prices_hourly)
  show "length (snd (parse_tibber_prices_dual secs float_str prices_data)) = 192"
    by (simp add: parse_tibber_prices_dual_def finish_prices_dual_def c Let_def
        length_build_prices_15min length_expand_hourly_to_15min)
  show "fst (parse_tibber_prices_dual secs float_str prices_data) ! h =
     (if hour_prices secs float_str prices_data (int h) = [] then 0.30
      else sum_list (hour_prices secs float_str prices_data (int h))
           / real (length (hour_prices secs float_str prices_data (int h))))" if "h < 48"
    using nth_build_prices_hourly [OF d that]
    by (simp add: parse_tibber_prices_dual_def finish_prices_dual_def c Let_def l)
  show "snd (parse_tibber_prices_dual secs float_str prices_data) =
     expand_hourly_to_15min (fst (parse_tibber_prices_dual secs float_str prices_data))"
    if "snd (tibber_collect secs float_str prices_data) = []"
    using that by (simp add: parse_tibber_prices_dual_def finish_prices_dual_def c Let_def)
qed

text \<open>
  C6. The claim takes slot \<open>h\<close> for the mean of the prices of all entries in range. An entry
  \<^verbatim>\<open>{"from": now, "price": 0.0}\<close> is in range with price 0, but
  \<^verbatim>\<open>entry.get("price") or entry.get("total")\<close> turns its price into \<^verbatim>\<open>None\<close> and the
  entry is skipped: slot 0 keeps the default 0.30 and the entry contributes nothing. The
  same price under the key \<^verbatim>\<open>total\<close> passes the test \<^verbatim>\<open>price is None\<close> and makes slot 0
  equal to 0; next to a price of 0.20 in the same hour the zero price is left out of the
  mean.
\<close>

theorem parse_tibber_zero_price_skipped:
  "fst (parse_tibber_prices_dual example_secs no_float_str
          [PDict [(''from'', PStr ''now''), (''price'', PNum 0)]]) ! 0 = 0.30 \<and>
   tibber_contribution example_secs no_float_str
          (PDict [(''from'', PStr ''now''), (''price'', PNum 0)]) = None \<and>
   fst (parse_tibber_prices_dual example_secs no_float_str
          [PDict [(''startsAt'', PStr ''now''), (''total'', PNum 0)]]) ! 0 = 0 \<and>
   fst (parse_tibber_prices_dual example_secs no_float_str
          [PDict [(''from'', PStr ''now''), (''price'', PNum 0.20)],
           PDict [(''from'', PStr ''now+15min''), (''price'', PNum 0)]]) ! 0 = 0.20"
  by (simp add: parse_tibber_prices_dual_def tibber_collect_def tibber_entry_def
      tibber_contribution_def finish_prices_dual_def build_prices_hourly_def
      set_hourly_mean_def tibber_store_slot_def tibber_append_hourly_def
      hourly_lookup_def dict_get_def py_or_def py_int_def example_secs_simps Let_def)

end
